theory Spec2Isabelle
  imports Complex_Main "HOL-Library.AList" "HOL-Library.Sublist"
begin

section \<open>Accessible-output shape registry of p5js-node (src/accessibility/outputs.js)\<close>

subsection \<open>JavaScript values and numbers\<close>

text \<open>
  The draw arguments arrive in one JavaScript array that holds numbers and, for an arc,
  the mode constant at index 6. Reading an index beyond the end of the array gives
  \<open>undefined\<close>. Strict equality \<open>===\<close> on these values is equality of the datatype
  (\<open>undefined === undefined\<close> holds).

  A computed number is a \<open>real option\<close>: \<open>Some x\<close> is the finite number \<open>x\<close> in exact
  arithmetic (the rounding of IEEE doubles is not modelled), \<open>None\<close> is a number that
  is not finite (\<open>NaN\<close>, \<open>Infinity\<close> or \<open>-Infinity\<close>). The three can be merged here:
  an infinity arises only from a division by a canvas extent of zero, the result of such
  a division is never compared with \<open><\<close> or \<open>>\<close> and never becomes finite again, and
  \<open>JSON.stringify\<close> writes all three as \<open>null\<close>. An undefined argument converts to
  \<open>NaN\<close>, and so does a string at an arithmetic position, which is what happens to the
  mode constants; numeric strings are not among the arguments the drawing functions
  pass on.
\<close>

datatype jsval = Num real | Str string | Undefined

type_synonym number = "real option"

definition arg :: "jsval list \<Rightarrow> nat \<Rightarrow> jsval" where
  "arg args i = (if i < length args then args ! i else Undefined)"

fun ToNumber :: "jsval \<Rightarrow> number" where
  "ToNumber (Num x) = Some x"
| "ToNumber (Str s) = None"
| "ToNumber Undefined = None"

fun jadd :: "number \<Rightarrow> number \<Rightarrow> number" where
  "jadd (Some x) (Some y) = Some (x + y)"
| "jadd _ _ = None"

fun jsub :: "number \<Rightarrow> number \<Rightarrow> number" where
  "jsub (Some x) (Some y) = Some (x - y)"
| "jsub _ _ = None"

fun jmul :: "number \<Rightarrow> number \<Rightarrow> number" where
  "jmul (Some x) (Some y) = Some (x * y)"
| "jmul _ _ = None"

text \<open>Division by zero gives an infinity or \<open>NaN\<close>, never an exception.\<close>

fun jdiv :: "number \<Rightarrow> number \<Rightarrow> number" where
  "jdiv (Some x) (Some y) = (if y = 0 then None else Some (x / y))"
| "jdiv _ _ = None"

text \<open>The remainder operator \<open>%\<close> truncates the quotient towards zero, so the result has
  the sign of the dividend.\<close>

definition trunc :: "real \<Rightarrow> int" where
  "trunc x = (if 0 \<le> x then \<lfloor>x\<rfloor> else \<lceil>x\<rceil>)"

fun jrem :: "number \<Rightarrow> number \<Rightarrow> number" where
  "jrem (Some x) (Some y) = (if y = 0 then None else Some (x - y * of_int (trunc (x / y))))"
| "jrem _ _ = None"

text \<open>A relational comparison with \<open>NaN\<close> on either side is false.\<close>

fun jlt :: "number \<Rightarrow> number \<Rightarrow> bool" where
  "jlt (Some x) (Some y) = (x < y)"
| "jlt _ _ = False"

fun jgt :: "number \<Rightarrow> number \<Rightarrow> bool" where
  "jgt (Some x) (Some y) = (x > y)"
| "jgt _ _ = False"

text \<open>\<open>Math.round\<close> rounds a tie towards plus infinity, as \<^const>\<open>round\<close> does;
  \<open>Math.floor\<close> is \<^const>\<open>floor\<close>. Both return an integer or stay non-finite.\<close>

definition Math_round :: "number \<Rightarrow> int option" where
  "Math_round a = map_option round a"

definition Math_floor :: "number \<Rightarrow> int option" where
  "Math_floor a = map_option floor a"

definition Math_abs :: "number \<Rightarrow> number" where
  "Math_abs a = map_option abs a"

definition Math_cos :: "number \<Rightarrow> number" where
  "Math_cos a = map_option cos a"

definition Math_sin :: "number \<Rightarrow> number" where
  "Math_sin a = map_option sin a"

definition Math_PI :: number where
  "Math_PI = Some pi"

definition of_integer :: "int option \<Rightarrow> number" where
  "of_integer i = map_option of_int i"

text \<open>\<open>x.toFixed(2)\<close> writes \<open>x\<close> with two decimals: the sign is taken off first and the
  magnitude is rounded to the nearest hundredth, a tie going up. The string it returns is
  converted back to a number by the multiplication it is an operand of.\<close>

definition fixed2 :: "real \<Rightarrow> real" where
  "fixed2 v = (if v < 0 then - (of_int \<lfloor>- v * 100 + 1 / 2\<rfloor> / 100)
               else of_int \<lfloor>v * 100 + 1 / 2\<rfloor> / 100)"

definition toFixed2 :: "number \<Rightarrow> number" where
  "toFixed2 a = map_option fixed2 a"

subsection \<open>Centroid, named position, grid cell and area\<close>

text \<open>\<open>_getMiddle\<close> (lines 143-168). The last branch returns the two arguments as they
  are; both consumers of the result use them as numbers.\<close>

definition getMiddle :: "string \<Rightarrow> jsval list \<Rightarrow> number \<times> number" where
  "getMiddle f args =
    (let a = (\<lambda>i. ToNumber (arg args i)) in
     if f = ''rectangle'' \<or> f = ''ellipse'' \<or> f = ''arc'' \<or> f = ''circle'' \<or> f = ''square''
     then (of_integer (Math_round (jadd (a 0) (jdiv (a 2) (Some 2)))),
           of_integer (Math_round (jadd (a 1) (jdiv (a 3) (Some 2)))))
     else if f = ''triangle''
     then (jdiv (jadd (jadd (a 0) (a 2)) (a 4)) (Some 3),
           jdiv (jadd (jadd (a 1) (a 3)) (a 5)) (Some 3))
     else if f = ''quadrilateral''
     then (jdiv (jadd (jadd (jadd (a 0) (a 2)) (a 4)) (a 6)) (Some 4),
           jdiv (jadd (jadd (jadd (a 1) (a 3)) (a 5)) (a 7)) (Some 4))
     else if f = ''line''
     then (jdiv (jadd (a 0) (a 2)) (Some 2), jdiv (jadd (a 1) (a 3)) (Some 2))
     else (a 0, a 1))"

text \<open>\<open>_getPos\<close> (lines 171-197).\<close>

definition getPos :: "number \<times> number \<Rightarrow> real \<Rightarrow> real \<Rightarrow> string" where
  "getPos args canvasWidth canvasHeight =
    (if jlt (fst args) (Some (0.4 * canvasWidth)) then
       (if jlt (snd args) (Some (0.4 * canvasHeight)) then ''top left''
        else if jgt (snd args) (Some (0.6 * canvasHeight)) then ''bottom left''
        else ''mid left'')
     else if jgt (fst args) (Some (0.6 * canvasWidth)) then
       (if jlt (snd args) (Some (0.4 * canvasHeight)) then ''top right''
        else if jgt (snd args) (Some (0.6 * canvasHeight)) then ''bottom right''
        else ''mid right'')
     else
       (if jlt (snd args) (Some (0.4 * canvasHeight)) then ''top middle''
        else if jgt (snd args) (Some (0.6 * canvasHeight)) then ''bottom middle''
        else ''middle''))"

text \<open>\<open>_canvasLocator\<close> (lines 200-215): the object \<open>{locX, locY}\<close> is a pair.\<close>

definition canvasLocator :: "number \<times> number \<Rightarrow> real \<Rightarrow> real \<Rightarrow> int option \<times> int option" where
  "canvasLocator args canvasWidth canvasHeight =
    (let noRows = 10; noCols = 10;
         locX = Math_floor (jmul (jdiv (fst args) (Some canvasWidth)) (Some (of_int noRows)));
         locY = Math_floor (jmul (jdiv (snd args) (Some canvasHeight)) (Some (of_int noCols)));
         locX = (if locX = Some noRows then map_option (\<lambda>i. i - 1) locX else locX);
         locY = (if locY = Some noCols then map_option (\<lambda>i. i - 1) locY else locY)
     in (locX, locY))"

text \<open>\<open>_getArea\<close> (lines 218-277).\<close>

definition getArea :: "string \<Rightarrow> jsval list \<Rightarrow> real \<Rightarrow> real \<Rightarrow> int option" where
  "getArea objectType shapeArgs canvasWidth canvasHeight =
    (let a = (\<lambda>i. ToNumber (arg shapeArgs i));
         two_pi = jmul Math_PI (Some 2);
         objectArea =
          (if objectType = ''arc'' then
             (let arcSizeInRadians = jrem (jadd (jrem (jsub (a 5) (a 4)) two_pi) two_pi) two_pi;
                  objectArea = jdiv (jmul (jmul arcSizeInRadians (a 2)) (a 3)) (Some 8)
              in if arg shapeArgs 6 = Str ''open'' \<or> arg shapeArgs 6 = Str ''chord'' then
                   (let Ax = a 0;
                        Ay = a 1;
                        Bx = jadd (a 0) (jmul (jdiv (a 2) (Some 2)) (toFixed2 (Math_cos (a 4))));
                        By = jadd (a 1) (jmul (jdiv (a 3) (Some 2)) (toFixed2 (Math_sin (a 4))));
                        Cx = jadd (a 0) (jmul (jdiv (a 2) (Some 2)) (toFixed2 (Math_cos (a 5))));
                        Cy = jadd (a 1) (jmul (jdiv (a 3) (Some 2)) (toFixed2 (Math_sin (a 5))));
                        areaOfExtraTriangle =
                          jdiv (Math_abs (jadd (jadd (jmul Ax (jsub By Cy)) (jmul Bx (jsub Cy Ay)))
                                               (jmul Cx (jsub Ay By)))) (Some 2)
                    in if jgt arcSizeInRadians Math_PI then jadd objectArea areaOfExtraTriangle
                       else jsub objectArea areaOfExtraTriangle)
                 else objectArea)
           else if objectType = ''ellipse'' \<or> objectType = ''circle'' then
             jdiv (jmul (jdiv (jmul (Some 3.14) (a 2)) (Some 2)) (a 3)) (Some 2)
           else if objectType = ''line'' then Some 0
           else if objectType = ''point'' then Some 0
           else if objectType = ''quadrilateral'' then
             jdiv (Math_abs
               (jadd (jadd (jadd (jmul (jadd (a 6) (a 0)) (jsub (a 7) (a 1)))
                                 (jmul (jadd (a 0) (a 2)) (jsub (a 1) (a 3))))
                           (jmul (jadd (a 2) (a 4)) (jsub (a 3) (a 5))))
                     (jmul (jadd (a 4) (a 6)) (jsub (a 5) (a 7))))) (Some 2)
           else if objectType = ''rectangle'' \<or> objectType = ''square'' then jmul (a 2) (a 3)
           else if objectType = ''triangle'' then
             jdiv (Math_abs
               (jadd (jadd (jmul (a 0) (jsub (a 3) (a 5))) (jmul (a 2) (jsub (a 5) (a 1))))
                     (jmul (a 4) (jsub (a 1) (a 3))))) (Some 2)
           else Some 0)
     in Math_round (jdiv (jmul objectArea (Some 100)) (Some (canvasWidth * canvasHeight))))"

subsection \<open>The instance state\<close>

text \<open>
  One record of \<open>ingredients.shapes\<close>, the object \<open>include\<close> that \<open>_accsOutput\<close>
  builds. A line has \<open>length\<close> and no \<open>area\<close>, a point has neither, every other
  kind has \<open>area\<close> and no \<open>length\<close>; an absent key is \<open>None\<close>. The numeric fields come
  out of \<open>Math.round\<close> and \<open>Math.floor\<close>: an integer, or \<open>None\<close> for a value that is
  not finite, which \<open>JSON.stringify\<close> writes as \<open>null\<close>.
\<close>

record shape =
  color :: string
  length_px :: "int option option"
  area :: "int option option"
  pos :: string
  loc :: "int option \<times> int option"

text \<open>
  \<open>ingredients.shapes\<close> is an object whose keys are the shape kinds. A JavaScript object
  keeps its string keys in the order they were first assigned and \<open>JSON.stringify\<close>
  writes them in that order, so the registry is an association list. (The kinds are shape
  names; none is an integer index or a property of \<open>Object.prototype\<close>.)
\<close>

type_synonym registry = "(string \<times> shape list) list"

text \<open>
  The string \<open>JSON.stringify v\<close> is represented by \<open>JSON v\<close>, the value it serialises:
  on single records and on registries, built from strings, integers and \<open>null\<close> with the
  keys in a fixed order, two serialisations are the same string exactly when the values
  are equal. \<open>pShapes\<close> holds such a string or, as \<open>None\<close>, a string that serialises no
  registry (the empty string it is initialised with).
\<close>

datatype 'a json = JSON 'a

definition JSON_stringify :: "'a \<Rightarrow> 'a json" where
  "JSON_stringify v = JSON v"

text \<open>
  The colour arguments are values of a type \<open>'c\<close> on which \<open>!==\<close> is disequality: for the
  \<open>levels\<close> arrays the renderer passes, that is the identity of the array object. The
  \<open>RGBA\<close> fields are \<open>undefined\<close> (\<open>None\<close>) until the first colour call.
\<close>

record 'c colors =
  background :: string
  backgroundRGBA :: "'c option"
  fill :: string
  fillRGBA :: "'c option"
  stroke :: string
  strokeRGBA :: "'c option"

record 'c ingredients =
  shapes :: registry
  colors :: "'c colors"
  pShapes :: "registry json option"

record outputs =
  text_flag :: bool
  grid_flag :: bool
  textLabel_flag :: bool
  gridLabel_flag :: bool

text \<open>One regeneration request sent to the output sink, with the element identifier.\<close>

datatype regeneration = TextOutput string | GridOutput string

text \<open>
  The part of a \<open>p5\<close> instance this module reads and writes, for an instance on which
  the accessible outputs have been set up (\<open>ingredients\<close>, \<open>_accessibleOutputs\<close> and
  \<open>canvas\<close> exist). \<open>canvas_id\<close> is \<open>this.canvas.id\<close>; \<open>regenerated\<close> collects the
  requests sent to the output sink, oldest first.
\<close>

record 'c p5 =
  ingredients :: "'c ingredients"
  accessibleOutputs :: outputs
  canvas_id :: string
  width :: real
  height :: real
  regenerated :: "regeneration list"

subsection \<open>Collaborators that are not part of this module\<close>

text \<open>Modelled from the spec: \<open>_updateTextOutput\<close> and \<open>_updateGridOutput\<close>, the output
  sink. The sink "receives generated text string / structured grid description for
  presentation (e.g., written into an accessible DOM-like output element by identifier)"
  and the registry "is read (never mutated) when generating descriptive text/grid output":
  a call is recorded with its identifier and leaves the rest of the instance as it is.\<close>

definition updateTextOutput :: "string \<Rightarrow> 'c p5 \<Rightarrow> 'c p5" where
  "updateTextOutput idT s = s\<lparr>regenerated := regenerated s @ [TextOutput idT]\<rparr>"

definition updateGridOutput :: "string \<Rightarrow> 'c p5 \<Rightarrow> 'c p5" where
  "updateGridOutput idT s = s\<lparr>regenerated := regenerated s @ [GridOutput idT]\<rparr>"

text \<open>Modelled from the spec: \<open>dist\<close>, called with four arguments, the "Euclidean
  length" of the segment between the two points.\<close>

fun dist4 :: "number \<Rightarrow> number \<Rightarrow> number \<Rightarrow> number \<Rightarrow> number" where
  "dist4 (Some x1) (Some y1) (Some x2) (Some y2) = Some (sqrt ((x2 - x1)\<^sup>2 + (y2 - y1)\<^sup>2))"
| "dist4 _ _ _ _ = None"

text \<open>\<open>_rgbColorName\<close>, the "named-color lookup: RGBA tuple \<rightarrow> nearest named color
  string", is a parameter \<open>rgbColorName\<close> of the two functions that call it.\<close>

subsection \<open>The operations\<close>

text \<open>\<open>_updateAccsOutput\<close> (lines 28-47).\<close>

definition updateAccsOutput :: "'c p5 \<Rightarrow> 'c p5" where
  "updateAccsOutput s =
    (let cnvId = canvas_id s in
     if Some (JSON_stringify (shapes (ingredients s))) \<noteq> pShapes (ingredients s) then
       (let s = s\<lparr>ingredients := (ingredients s)
                     \<lparr>pShapes := Some (JSON_stringify (shapes (ingredients s)))\<rparr>\<rparr>;
            s = (if text_flag (accessibleOutputs s)
                 then updateTextOutput (cnvId @ ''textOutput'') s else s);
            s = (if grid_flag (accessibleOutputs s)
                 then updateGridOutput (cnvId @ ''gridOutput'') s else s);
            s = (if textLabel_flag (accessibleOutputs s)
                 then updateTextOutput (cnvId @ ''textOutputLabel'') s else s);
            s = (if gridLabel_flag (accessibleOutputs s)
                 then updateGridOutput (cnvId @ ''gridOutputLabel'') s else s)
        in s)
     else s)"

text \<open>\<open>_accsBackground\<close> (lines 51-61).\<close>

definition accsBackground :: "('c \<Rightarrow> string) \<Rightarrow> 'c \<Rightarrow> 'c p5 \<Rightarrow> 'c p5" where
  "accsBackground rgbColorName args s =
    (let s = s\<lparr>ingredients := (ingredients s)
                  \<lparr>pShapes := Some (JSON_stringify (shapes (ingredients s)))\<rparr>\<rparr>;
         s = s\<lparr>ingredients := (ingredients s)\<lparr>shapes := []\<rparr>\<rparr>
     in if backgroundRGBA (colors (ingredients s)) \<noteq> Some args then
          s\<lparr>ingredients := (ingredients s)
              \<lparr>colors := (colors (ingredients s))
                 \<lparr>backgroundRGBA := Some args, background := rgbColorName args\<rparr>\<rparr>\<rparr>
        else s)"

text \<open>\<open>_accsCanvasColors\<close> (lines 64-78).\<close>

definition accsCanvasColors :: "('c \<Rightarrow> string) \<Rightarrow> string \<Rightarrow> 'c \<Rightarrow> 'c p5 \<Rightarrow> 'c p5" where
  "accsCanvasColors rgbColorName f args s =
    (if f = ''fill'' then
       (if fillRGBA (colors (ingredients s)) \<noteq> Some args then
          s\<lparr>ingredients := (ingredients s)
              \<lparr>colors := (colors (ingredients s))
                 \<lparr>fillRGBA := Some args, fill := rgbColorName args\<rparr>\<rparr>\<rparr>
        else s)
     else if f = ''stroke'' then
       (if strokeRGBA (colors (ingredients s)) \<noteq> Some args then
          s\<lparr>ingredients := (ingredients s)
              \<lparr>colors := (colors (ingredients s))
                 \<lparr>strokeRGBA := Some args, stroke := rgbColorName args\<rparr>\<rparr>\<rparr>
        else s)
     else s)"

text \<open>
  \<open>_accsOutput\<close> (lines 81-140) in its three steps. Lines 82-86 rename the kind.
\<close>

definition reclassify :: "string \<Rightarrow> jsval list \<Rightarrow> string" where
  "reclassify f args =
    (if f = ''ellipse'' \<and> arg args 2 = arg args 3 then ''circle''
     else if f = ''rectangle'' \<and> arg args 2 = arg args 3 then ''square''
     else f)"

text \<open>
  Lines 87-119 build the record from the kind as renamed. For a line the two end points
  are passed to \<open>_getPos\<close> as \<open>[args[0], [1]]\<close> and \<open>[args[2], [3]]\<close>: the second
  component is the array literal \<open>[1]\<close> (\<open>[3]\<close>), which the comparisons of \<open>_getPos\<close>
  convert to the number 1 (3).
\<close>

definition describe :: "string \<Rightarrow> jsval list \<Rightarrow> 'c p5 \<Rightarrow> shape" where
  "describe f args s =
    (let a = (\<lambda>i. ToNumber (arg args i));
         middle = getMiddle f args
     in if f = ''line'' then
          (let p1 = getPos (a 0, Some 1) (width s) (height s);
               p2 = getPos (a 2, Some 3) (width s) (height s)
           in \<lparr>color = stroke (colors (ingredients s)),
               length_px = Some (Math_round (dist4 (a 0) (a 1) (a 2) (a 3))),
               area = None,
               pos = (if p1 = p2 then ''at '' @ p1 else ''from '' @ p1 @ '' to '' @ p2),
               loc = canvasLocator middle (width s) (height s)\<rparr>)
        else
          \<lparr>color = (if f = ''point'' then stroke (colors (ingredients s))
                    else fill (colors (ingredients s))),
           length_px = None,
           area = (if f = ''point'' then None
                   else Some (getArea f args (width s) (height s))),
           pos = getPos middle (width s) (height s),
           loc = canvasLocator middle (width s) (height s)\<rparr>)"

text \<open>
  Lines 120-139 store the record. The loop over the records of the kind clears \<open>add\<close> at
  every record whose serialisation equals the new one's and never sets it again. The
  test \<open>shapes[f] !== [include]\<close> of line 124 compares with a fresh array and is always
  true.
\<close>

fun scan :: "shape list \<Rightarrow> shape \<Rightarrow> bool \<Rightarrow> bool" where
  "scan [] incl add = add"
| "scan (r # rs) incl add =
     scan rs incl (if JSON_stringify r = JSON_stringify incl then False else add)"

definition store :: "string \<Rightarrow> shape \<Rightarrow> 'c p5 \<Rightarrow> 'c p5" where
  "store f incl s =
    (case map_of (shapes (ingredients s)) f of
       None \<Rightarrow> s\<lparr>ingredients := (ingredients s)
                   \<lparr>shapes := shapes (ingredients s) @ [(f, [incl])]\<rparr>\<rparr>
     | Some rs \<Rightarrow>
         (let add = scan rs incl True
          in if add then
               s\<lparr>ingredients := (ingredients s)
                   \<lparr>shapes := AList.update f (rs @ [incl]) (shapes (ingredients s))\<rparr>\<rparr>
             else s))"

definition accsOutput :: "string \<Rightarrow> jsval list \<Rightarrow> 'c p5 \<Rightarrow> 'c p5" where
  "accsOutput f args s =
    (let f = reclassify f args;
         incl = describe f args s
     in store f incl s)"

subsection \<open>Sequences of calls\<close>

text \<open>The drawing, colour and frame functions of the library call the operations above
  in whatever order the sketch draws; a sketch is a list of such calls.\<close>

datatype 'c call =
    Output string "jsval list"
  | CanvasColors string 'c
  | Background 'c
  | Update

fun step :: "('c \<Rightarrow> string) \<Rightarrow> 'c call \<Rightarrow> 'c p5 \<Rightarrow> 'c p5" where
  "step rgbColorName (Output f args) s = accsOutput f args s"
| "step rgbColorName (CanvasColors f args) s = accsCanvasColors rgbColorName f args s"
| "step rgbColorName (Background args) s = accsBackground rgbColorName args s"
| "step rgbColorName Update s = updateAccsOutput s"

fun run :: "('c \<Rightarrow> string) \<Rightarrow> 'c call list \<Rightarrow> 'c p5 \<Rightarrow> 'c p5" where
  "run rgbColorName [] s = s"
| "run rgbColorName (c # cs) s = run rgbColorName cs (step rgbColorName c s)"

fun is_Background :: "'c call \<Rightarrow> bool" where
  "is_Background (Background args) = True"
| "is_Background _ = False"

subsection \<open>Notions of the specification\<close>

text \<open>The sequence of a kind in the registry of an instance.\<close>

definition lookup :: "'c p5 \<Rightarrow> string \<Rightarrow> shape list option" where
  "lookup s k = map_of (shapes (ingredients s)) k"

text \<open>Deduplication as the specification words it: the new record is appended to the
  sequence of its kind unless the sequence holds an identical record; the first record
  of a kind is stored.\<close>

definition stored :: "shape list option \<Rightarrow> shape \<Rightarrow> shape list" where
  "stored old r = (case old of None \<Rightarrow> [r] | Some rs \<Rightarrow> if r \<in> set rs then rs else rs @ [r])"

definition no_duplicates :: "registry \<Rightarrow> bool" where
  "no_duplicates reg = (\<forall>k rs. map_of reg k = Some rs \<longrightarrow> distinct rs)"

text \<open>The named 3 by 3 partition: a coordinate is below 40 per cent of the extent, above
  60 per cent of it, or in the band between them, the two thresholds included.\<close>

datatype band = Low | Mid | High

definition band_spec :: "real \<Rightarrow> real \<Rightarrow> band" where
  "band_spec v extent =
    (if v < 0.4 * extent then Low else if v > 0.6 * extent then High else Mid)"

fun label_spec :: "band \<Rightarrow> band \<Rightarrow> string" where
  "label_spec Low Low = ''top left''"
| "label_spec Low Mid = ''top middle''"
| "label_spec Low High = ''top right''"
| "label_spec Mid Low = ''mid left''"
| "label_spec Mid Mid = ''middle''"
| "label_spec Mid High = ''mid right''"
| "label_spec High Low = ''bottom left''"
| "label_spec High Mid = ''bottom middle''"
| "label_spec High High = ''bottom right''"

text \<open>The grid index with "an index of exactly 10 coerced to 9".\<close>

definition clamp10 :: "int \<Rightarrow> int" where
  "clamp10 i = (if i = 10 then 9 else i)"

text \<open>A grid cell of the 10 by 10 grid.\<close>

fun grid_in_range :: "int option \<times> int option \<Rightarrow> bool" where
  "grid_in_range (Some i, Some j) = (0 \<le> i \<and> i \<le> 9 \<and> 0 \<le> j \<and> j \<le> 9)"
| "grid_in_range _ = False"

text \<open>Every record of the registry has its grid cell in the 10 by 10 grid.\<close>

definition grid_cells_in_range :: "'c p5 \<Rightarrow> bool" where
  "grid_cells_in_range s =
    (\<forall>k rs r. lookup s k = Some rs \<and> r \<in> set rs \<longrightarrow> grid_in_range (loc r))"

text \<open>The regeneration requests of one update: one for each of the four flags that is
  on, in the order text, grid, text label, grid label.\<close>

definition requests :: "'c p5 \<Rightarrow> regeneration list" where
  "requests s =
    (if text_flag (accessibleOutputs s) then [TextOutput (canvas_id s @ ''textOutput'')] else [])
    @ (if grid_flag (accessibleOutputs s) then [GridOutput (canvas_id s @ ''gridOutput'')] else [])
    @ (if textLabel_flag (accessibleOutputs s)
       then [TextOutput (canvas_id s @ ''textOutputLabel'')] else [])
    @ (if gridLabel_flag (accessibleOutputs s)
       then [GridOutput (canvas_id s @ ''gridOutputLabel'')] else [])"

text \<open>The area of an arc as the specification words it. The swept angle is the difference
  of the two angles taken modulo \<open>2 * pi\<close> into \<open>[0, 2 * pi)\<close>. The triangle is the one
  spanned by the centre and the two end points of the arc.\<close>

definition swept_spec :: "real \<Rightarrow> real \<Rightarrow> real" where
  "swept_spec start stop = (stop - start) - 2 * pi * of_int \<lfloor>(stop - start) / (2 * pi)\<rfloor>"

definition triangle_spec :: "real \<times> real \<Rightarrow> real \<times> real \<Rightarrow> real \<times> real \<Rightarrow> real" where
  "triangle_spec a b c =
    \<bar>(fst b - fst a) * (snd c - snd a) - (fst c - fst a) * (snd b - snd a)\<bar> / 2"

text \<open>The end point of the arc at an angle, projected from the centre with half of each
  size argument: on the ellipse itself, which is how the words "endpoint projections"
  read, and with the cosine and the sine first rounded to two decimals (to the nearest
  hundredth of the magnitude, a tie away from zero).\<close>

definition endpoint_exact :: "real \<times> real \<Rightarrow> real \<Rightarrow> real \<Rightarrow> real \<Rightarrow> real \<times> real" where
  "endpoint_exact c dx dy angle = (fst c + dx / 2 * cos angle, snd c + dy / 2 * sin angle)"

definition two_decimals :: "real \<Rightarrow> real" where
  "two_decimals v = sgn v * of_int (round (\<bar>v\<bar> * 100)) / 100"

definition endpoint_two_decimals ::
  "real \<times> real \<Rightarrow> real \<Rightarrow> real \<Rightarrow> real \<Rightarrow> real \<times> real" where
  "endpoint_two_decimals c dx dy angle =
    (fst c + dx / 2 * two_decimals (cos angle), snd c + dy / 2 * two_decimals (sin angle))"

text \<open>The area of the arc for a given projection of its end points.\<close>

definition arc_area_of ::
  "(real \<times> real \<Rightarrow> real \<Rightarrow> real \<Rightarrow> real \<Rightarrow> real \<times> real) \<Rightarrow>
   real \<Rightarrow> real \<Rightarrow> real \<Rightarrow> real \<Rightarrow> real \<Rightarrow> real \<Rightarrow> jsval \<Rightarrow> real" where
  "arc_area_of endpoint x y dx dy start stop mode =
    (let swept = swept_spec start stop;
         base = swept * dx * dy / 8;
         extra = triangle_spec (x, y) (endpoint (x, y) dx dy start) (endpoint (x, y) dx dy stop)
     in if mode = Str ''open'' \<or> mode = Str ''chord''
        then (if swept > pi then base + extra else base - extra)
        else base)"

subsection \<open>A sketch on a 100 by 100 canvas\<close>

text \<open>An instance as the set-up of the outputs leaves it, with the text output on, and a
  colour namer that knows one colour. Colours are \<open>levels\<close> arrays, here by content.\<close>

definition canvas100 :: "nat list p5" where
  "canvas100 =
    \<lparr>ingredients =
       \<lparr>shapes = [],
        colors = \<lparr>background = ''white'', backgroundRGBA = None,
                  fill = ''white'', fillRGBA = None,
                  stroke = ''black'', strokeRGBA = None\<rparr>,
        pShapes = None\<rparr>,
     accessibleOutputs =
       \<lparr>text_flag = True, grid_flag = False, textLabel_flag = False, gridLabel_flag = False\<rparr>,
     canvas_id = ''defaultCanvas0'',
     width = 100,
     height = 100,
     regenerated = []\<rparr>"

definition red_or_white :: "nat list \<Rightarrow> string" where
  "red_or_white levels = (if levels = [255, 0, 0, 255] then ''red'' else ''white'')"

definition red :: "nat list" where
  "red = [255, 0, 0, 255]"

text \<open>The arguments of \<open>rect(10, 10, 50, 20)\<close> and the record it is described by, up to
  the colour; the arguments of a rectangle with equal sides.\<close>

definition rect_args :: "jsval list" where
  "rect_args = [Num 10, Num 10, Num 50, Num 20]"

definition rect_record :: "string \<Rightarrow> shape" where
  "rect_record c =
    \<lparr>color = c, length_px = None, area = Some (Some 10), pos = ''top left'',
     loc = (Some 3, Some 2)\<rparr>"

definition square_args :: "jsval list" where
  "square_args = [Num 60, Num 60, Num 30, Num 30]"

text \<open>The arguments of \<open>line(10, 10, 10, 90)\<close>.\<close>

definition line_args :: "jsval list" where
  "line_args = [Num 10, Num 10, Num 10, Num 90]"

text \<open>The arguments of \<open>arc(50, 50, 66, 38, 0, 1, CHORD)\<close>.\<close>

definition chord_args :: "jsval list" where
  "chord_args = [Num 50, Num 50, Num 66, Num 38, Num 0, Num 1, Str ''chord'']"

section \<open>Properties\<close>

subsection \<open>Named position\<close>

lemma getPos_bands:
  "getPos (Some x, Some y) w h = label_spec (band_spec y h) (band_spec x w)"
  by (simp add: getPos_def band_spec_def)

lemma band_boundary:
  "0 \<le> extent \<Longrightarrow> band_spec (0.4 * extent) extent = Mid \<and> band_spec (0.6 * extent) extent = Mid"
  by (simp add: band_spec_def)

text \<open>
  C5. \<open>_getPos\<close> names the cell of the 3 by 3 partition that the point falls in: the
  vertical band of \<open>y\<close> against the height and the horizontal band of \<open>x\<close> against the
  width, both by strict comparisons with 40 and 60 per cent. On a canvas of non-negative
  extent a coordinate exactly at 40 or at 60 per cent is in the middle band, the name is
  the bare \<open>middle\<close> when both coordinates are in their middle bands, and on a 100 by 100
  canvas the four points of the specification get the names it lists.
\<close>

theorem getPos_partition:
  "getPos (Some x, Some y) w h = label_spec (band_spec y h) (band_spec x w)
   \<and> (0 \<le> extent \<longrightarrow>
        band_spec (0.4 * extent) extent = Mid \<and> band_spec (0.6 * extent) extent = Mid)
   \<and> (band_spec x w = Mid \<and> band_spec y h = Mid \<longrightarrow> getPos (Some x, Some y) w h = ''middle'')
   \<and> getPos (Some 10, Some 10) 100 100 = ''top left''
   \<and> getPos (Some 50, Some 10) 100 100 = ''top middle''
   \<and> getPos (Some 90, Some 50) 100 100 = ''mid right''
   \<and> getPos (Some 50, Some 50) 100 100 = ''middle''"
  using getPos_bands band_boundary by (simp add: getPos_def)

theorem getPos_partition_witness:
  "(0::real) \<le> 100 \<and> band_spec 40 100 = Mid \<and> band_spec 60 100 = Mid
   \<and> getPos (Some 40, Some 60) 100 100 = ''middle''"
  using getPos_partition [of 40 60 100 100 100] by (simp add: band_spec_def)

subsection \<open>Grid cell\<close>

lemma canvasLocator_finite:
  "w \<noteq> 0 \<Longrightarrow> h \<noteq> 0 \<Longrightarrow>
   canvasLocator (Some x, Some y) w h =
     (Some (clamp10 \<lfloor>x / w * 10\<rfloor>), Some (clamp10 \<lfloor>y / h * 10\<rfloor>))"
  by (simp add: canvasLocator_def Math_floor_def clamp10_def Let_def)

lemma index10_iff:
  "0 < (w::real) \<Longrightarrow> (\<lfloor>x / w * 10\<rfloor> = (10::int)) = (w \<le> x \<and> 10 * x < 11 * w)"
  by (auto simp add: floor_eq_iff field_simps)

text \<open>
  C6, as the code has it. On a canvas with non-zero width and height \<open>_canvasLocator\<close>
  returns \<open>floor (x / w * 10)\<close> and \<open>floor (y / h * 10)\<close> with an index of exactly 10
  coerced to 9. For a positive width the index is 10 exactly when \<open>w \<le> x < 1.1 * w\<close>
  (and likewise for the height): at \<open>x = w\<close>, and also for a centroid up to a tenth of
  the width beyond the right edge. On a 100 by 100 canvas (95, 95) and (100, 100) both
  map to the cell (9, 9).
\<close>

theorem canvasLocator_clamp:
  "(w \<noteq> 0 \<and> h \<noteq> 0 \<longrightarrow>
      canvasLocator (Some x, Some y) w h =
        (Some (clamp10 \<lfloor>x / w * 10\<rfloor>), Some (clamp10 \<lfloor>y / h * 10\<rfloor>)))
   \<and> (0 < w \<longrightarrow> (\<lfloor>x / w * 10\<rfloor> = (10::int)) = (w \<le> x \<and> 10 * x < 11 * w))
   \<and> (0 < h \<longrightarrow> (\<lfloor>y / h * 10\<rfloor> = (10::int)) = (h \<le> y \<and> 10 * y < 11 * h))
   \<and> canvasLocator (Some 95, Some 95) 100 100 = (Some 9, Some 9)
   \<and> canvasLocator (Some 100, Some 100) 100 100 = (Some 9, Some 9)"
  using canvasLocator_finite [of w h x y] index10_iff [of w x] index10_iff [of h y]
  by (simp add: canvasLocator_def Math_floor_def)

theorem canvasLocator_clamp_witness:
  "(100::real) \<noteq> 0 \<and> (0::real) < 100
   \<and> canvasLocator (Some 100, Some 37) 100 100 = (Some 9, Some 3)
   \<and> \<lfloor>(100::real) / 100 * 10\<rfloor> = (10::int)"
  using canvasLocator_clamp [of 100 100 100 37] by (simp add: clamp10_def)

text \<open>The index 10 is reached, and coerced to 9, by a centroid that is not on the right
  edge: \<open>x = 105\<close> on a canvas 100 wide.\<close>

theorem canvasLocator_index10_off_edge:
  "canvasLocator (Some 105, Some 50) 100 100 = (Some 9, Some 5)
   \<and> \<lfloor>(105::real) / 100 * 10\<rfloor> = (10::int)
   \<and> (105::real) \<noteq> 100 \<and> (50::real) \<noteq> 100"
  by (simp add: canvasLocator_def Math_floor_def)

subsection \<open>The registry under \<open>_accsOutput\<close>\<close>

lemma scan_eq: "scan rs incl add = (add \<and> incl \<notin> set rs)"
  by (induction rs arbitrary: add) (auto simp add: JSON_stringify_def)

lemma map_of_snoc_new: "map_of reg k = None \<Longrightarrow> map_of (reg @ [(k, v)]) = (map_of reg)(k \<mapsto> v)"
  by (rule ext) (simp add: map_add_def split: option.splits)

lemma store_map_of:
  "map_of (shapes (ingredients (store f r s))) =
   (map_of (shapes (ingredients s)))(f \<mapsto> stored (map_of (shapes (ingredients s)) f) r)"
proof (cases "map_of (shapes (ingredients s)) f")
  case None
  then show ?thesis
    by (simp add: store_def stored_def map_of_snoc_new del: map_of_append)
next
  case (Some rs)
  show ?thesis
  proof (cases "r \<in> set rs")
    case True
    with Some show ?thesis by (simp add: store_def stored_def scan_eq map_upd_triv)
  next
    case False
    with Some show ?thesis by (simp add: store_def stored_def scan_eq update_conv')
  qed
qed

lemma store_lookup:
  "lookup (store f r s) k = (if k = f then Some (stored (lookup s f) r) else lookup s k)"
  by (simp add: lookup_def store_map_of)

lemma store_keys:
  "map fst (shapes (ingredients (store f r s))) =
   (if lookup s f = None then map fst (shapes (ingredients s)) @ [f]
    else map fst (shapes (ingredients s)))"
proof (cases "map_of (shapes (ingredients s)) f")
  case None
  then show ?thesis by (simp add: store_def lookup_def)
next
  case (Some rs)
  then have "map_of (shapes (ingredients s)) f \<noteq> None" by simp
  then have "f \<in> fst ` set (shapes (ingredients s))" by (simp add: map_of_eq_None_iff)
  then show ?thesis using Some by (simp add: store_def Let_def update_keys lookup_def)
qed

lemma stored_distinct: "(\<And>rs. old = Some rs \<Longrightarrow> distinct rs) \<Longrightarrow> distinct (stored old r)"
  by (cases old) (simp_all add: stored_def)

lemma stored_prefix: "old = Some rs \<Longrightarrow> prefix rs (stored old r)"
  by (simp add: stored_def)

lemma store_no_duplicates:
  "no_duplicates (shapes (ingredients s)) \<Longrightarrow> no_duplicates (shapes (ingredients (store f r s)))"
  unfolding no_duplicates_def store_map_of
  by (auto intro!: stored_distinct)

lemma accsOutput_store:
  "accsOutput f args s = store (reclassify f args) (describe (reclassify f args) args s) s"
  by (simp add: accsOutput_def Let_def)

lemma updateAccsOutput_shapes: "shapes (ingredients (updateAccsOutput s)) = shapes (ingredients s)"
  by (simp add: updateAccsOutput_def Let_def updateTextOutput_def updateGridOutput_def)

lemma accsCanvasColors_shapes: "shapes (ingredients (accsCanvasColors nm f c s)) = shapes (ingredients s)"
  by (simp add: accsCanvasColors_def)

lemma accsBackground_shapes: "shapes (ingredients (accsBackground nm c s)) = []"
  by (simp add: accsBackground_def Let_def)

lemma step_no_duplicates:
  "no_duplicates (shapes (ingredients s)) \<Longrightarrow> no_duplicates (shapes (ingredients (step nm c s)))"
proof (cases c)
  case (Output f args)
  assume "no_duplicates (shapes (ingredients s))"
  then show ?thesis
    unfolding Output step.simps accsOutput_store by (rule store_no_duplicates)
next
  case (CanvasColors f args)
  assume "no_duplicates (shapes (ingredients s))"
  then show ?thesis
    unfolding CanvasColors by (simp add: accsCanvasColors_shapes)
next
  case (Background args)
  show ?thesis
    unfolding Background by (simp add: accsBackground_shapes no_duplicates_def)
next
  case Update
  assume "no_duplicates (shapes (ingredients s))"
  then show ?thesis
    unfolding Update by (simp add: updateAccsOutput_shapes)
qed

lemma run_no_duplicates:
  "no_duplicates (shapes (ingredients s)) \<Longrightarrow> no_duplicates (shapes (ingredients (run nm cs s)))"
  by (induction cs arbitrary: s) (simp_all add: step_no_duplicates)

lemma step_prefix:
  "\<not> is_Background c \<Longrightarrow> lookup s k = Some rs \<Longrightarrow> \<exists>rs'. lookup (step nm c s) k = Some rs' \<and> prefix rs rs'"
proof (cases c)
  case (Output f args)
  assume "lookup s k = Some rs"
  then show ?thesis
    unfolding Output step.simps accsOutput_store store_lookup
    by (auto intro: stored_prefix)
next
  case (CanvasColors f args)
  assume "lookup s k = Some rs"
  then show ?thesis
    unfolding CanvasColors by (simp add: lookup_def accsCanvasColors_shapes)
next
  case (Background args)
  assume "\<not> is_Background c"
  then show ?thesis
    unfolding Background by simp
next
  case Update
  assume "lookup s k = Some rs"
  then show ?thesis
    unfolding Update by (simp add: lookup_def updateAccsOutput_shapes)
qed

lemma run_prefix:
  "\<forall>c \<in> set cs. \<not> is_Background c \<Longrightarrow> lookup s k = Some rs \<Longrightarrow>
   \<exists>rs'. lookup (run nm cs s) k = Some rs' \<and> prefix rs rs'"
proof (induction cs arbitrary: s rs)
  case Nil
  then show ?case by simp
next
  case (Cons c cs)
  from Cons.prems obtain rs1 where 1: "lookup (step nm c s) k = Some rs1" and p1: "prefix rs rs1"
    using step_prefix [of c s k rs nm] by auto
  from Cons.IH [OF _ 1] Cons.prems obtain rs' where "lookup (run nm cs (step nm c s)) k = Some rs'" and "prefix rs1 rs'"
    by auto
  with p1 show ?case by (auto intro: prefix_order.trans)
qed

lemma store_cases:
  "lookup (store f r s) f = Some ((case lookup s f of None \<Rightarrow> [] | Some rs \<Rightarrow> rs) @ [r])
   \<or> store f r s = s"
proof (cases "lookup s f")
  case None
  then show ?thesis by (simp add: store_lookup stored_def)
next
  case (Some rs)
  then show ?thesis
    by (cases "r \<in> set rs") (simp_all add: store_lookup stored_def, simp add: store_def lookup_def scan_eq)
qed

lemma stored_member: "r \<in> set (stored old r)"
  by (cases old) (simp_all add: stored_def)

lemma stored_set: "set (stored old r) = insert r (case old of None \<Rightarrow> {} | Some rs \<Rightarrow> set rs)"
  by (cases old) (auto simp add: stored_def)

lemma store_grid_cells:
  "grid_cells_in_range s \<Longrightarrow> grid_in_range (loc r) \<Longrightarrow> grid_cells_in_range (store f r s)"
  unfolding grid_cells_in_range_def store_lookup
  by (auto simp add: stored_set split: option.splits if_splits)

lemma describe_loc:
  "loc (describe f args s) = canvasLocator (getMiddle f args) (width s) (height s)"
  by (simp add: describe_def Let_def)

lemma clamp10_range_iff: "(0 \<le> clamp10 i \<and> clamp10 i \<le> 9) = (0 \<le> i \<and> i \<le> 10)"
  by (auto simp add: clamp10_def)

lemma index_range_iff:
  assumes "0 < (w::real)"
  shows "(0 \<le> clamp10 \<lfloor>x / w * 10\<rfloor> \<and> clamp10 \<lfloor>x / w * 10\<rfloor> \<le> 9) = (0 \<le> x \<and> 10 * x < 11 * w)"
proof -
  have "(0 \<le> \<lfloor>x / w * 10\<rfloor>) = (0 \<le> x)"
    using assms by (simp add: zero_le_divide_iff)
  moreover have "(\<lfloor>x / w * 10\<rfloor> \<le> 10) = (10 * x < 11 * w)"
    using assms by (simp add: floor_le_iff field_simps)
  ultimately show ?thesis
    by (simp only: clamp10_range_iff)
qed

lemma canvasLocator_range_iff:
  assumes "0 < w" and "0 < h"
  shows "grid_in_range (canvasLocator (Some x, Some y) w h) =
         (0 \<le> x \<and> 10 * x < 11 * w \<and> 0 \<le> y \<and> 10 * y < 11 * h)"
proof -
  have "canvasLocator (Some x, Some y) w h =
          (Some (clamp10 \<lfloor>x / w * 10\<rfloor>), Some (clamp10 \<lfloor>y / h * 10\<rfloor>))"
    using assms by (simp add: canvasLocator_finite)
  then show ?thesis
    using index_range_iff [OF assms(1), of x] index_range_iff [OF assms(2), of y]
    by auto
qed

lemma describe_filled:
  "f \<noteq> ''line'' \<Longrightarrow> f \<noteq> ''point'' \<Longrightarrow>
   describe f args s =
     \<lparr>color = fill (colors (ingredients s)), length_px = None,
      area = Some (getArea f args (width s) (height s)),
      pos = getPos (getMiddle f args) (width s) (height s),
      loc = canvasLocator (getMiddle f args) (width s) (height s)\<rparr>"
  by (simp add: describe_def Let_def)

subsection \<open>The sketch evaluated\<close>

lemma rect_middle: "getMiddle ''rectangle'' rect_args = (Some 35, Some 20)"
  by (simp add: rect_args_def getMiddle_def Math_round_def of_integer_def arg_def)

lemma rect_cell: "canvasLocator (Some 35, Some 20) 100 100 = (Some 3, Some 2)"
  by (simp add: canvasLocator_def Math_floor_def)

lemma rect_area: "getArea ''rectangle'' rect_args 100 100 = Some 10"
  by (simp add: rect_args_def getArea_def Math_round_def arg_def)

lemma rect_pos: "getPos (Some 35, Some 20) 100 100 = ''top left''"
  by (simp add: getPos_def)

lemma rect_reclassify: "reclassify ''rectangle'' rect_args = ''rectangle''"
  by (simp add: reclassify_def rect_args_def arg_def)

lemma rect_describe:
  "width s = 100 \<Longrightarrow> height s = 100 \<Longrightarrow>
   describe ''rectangle'' rect_args s = rect_record (fill (colors (ingredients s)))"
  by (simp add: describe_def rect_middle rect_cell rect_area rect_pos rect_record_def)

lemma rect_output:
  "width s = 100 \<Longrightarrow> height s = 100 \<Longrightarrow>
   accsOutput ''rectangle'' rect_args s =
     store ''rectangle'' (rect_record (fill (colors (ingredients s)))) s"
  by (simp add: accsOutput_store rect_reclassify rect_describe)

lemma rect_once:
  "accsOutput ''rectangle'' rect_args canvas100 =
     canvas100\<lparr>ingredients := (ingredients canvas100)
        \<lparr>shapes := [(''rectangle'', [rect_record ''white''])]\<rparr>\<rparr>"
  by (simp add: rect_output canvas100_def store_def)

lemma rect_twice:
  "accsOutput ''rectangle'' rect_args (accsOutput ''rectangle'' rect_args canvas100) =
     accsOutput ''rectangle'' rect_args canvas100"
  by (simp add: rect_once) (simp add: rect_output canvas100_def store_def JSON_stringify_def)

lemma rect_red:
  "accsOutput ''rectangle'' rect_args
     (accsCanvasColors red_or_white ''fill'' red (accsOutput ''rectangle'' rect_args canvas100)) =
   canvas100\<lparr>ingredients := (ingredients canvas100)
      \<lparr>shapes := [(''rectangle'', [rect_record ''white'', rect_record ''red''])],
       colors := (colors (ingredients canvas100))\<lparr>fill := ''red'', fillRGBA := Some red\<rparr>\<rparr>\<rparr>"
  by (simp add: rect_once accsCanvasColors_def red_or_white_def red_def)
     (simp add: rect_output canvas100_def store_def JSON_stringify_def rect_record_def)

lemma no_duplicates_Nil: "no_duplicates []"
  by (simp add: no_duplicates_def)

lemma square_middle: "getMiddle ''square'' square_args = (Some 75, Some 75)"
  by (simp add: square_args_def getMiddle_def Math_round_def of_integer_def arg_def)

lemma square_cell: "canvasLocator (Some 75, Some 75) 100 100 = (Some 7, Some 7)"
  by (simp add: canvasLocator_def Math_floor_def)

lemma square_area: "getArea ''square'' square_args 100 100 = Some 9"
  by (simp add: square_args_def getArea_def Math_round_def arg_def)

lemma square_pos: "getPos (Some 75, Some 75) 100 100 = ''bottom right''"
  by (simp add: getPos_def)

subsection \<open>Deduplication and growth of the registry\<close>

text \<open>
  C1. Along every sequence of calls the sequence of each kind stays free of duplicates:
  a run of any calls keeps the invariant, and a background call, which empties the
  registry, establishes it. \<open>_accsOutput\<close> leaves in the sequence of the (renamed) kind
  exactly what deduplication prescribes: the old sequence when it holds a record equal
  to the new one in all fields, the old sequence with the new record at its end
  otherwise, and the new record alone when the kind was not in the registry. On the
  100 by 100 canvas two identical rectangles leave one record, and a third one drawn
  after the fill colour changed leaves a second record.
\<close>

theorem registry_deduplication:
  "(no_duplicates (shapes (ingredients s)) \<longrightarrow>
      no_duplicates (shapes (ingredients (run rgbColorName cs s))))
   \<and> no_duplicates (shapes (ingredients (accsBackground rgbColorName c s)))
   \<and> lookup (accsOutput f args s) (reclassify f args) =
       Some (stored (lookup s (reclassify f args)) (describe (reclassify f args) args s))
   \<and> (lookup s (reclassify f args) = None \<longrightarrow>
        lookup (accsOutput f args s) (reclassify f args) = Some [describe (reclassify f args) args s])
   \<and> lookup (run red_or_white [Output ''rectangle'' rect_args, Output ''rectangle'' rect_args]
        canvas100) ''rectangle'' = Some [rect_record ''white'']
   \<and> lookup (run red_or_white [Output ''rectangle'' rect_args, Output ''rectangle'' rect_args,
        CanvasColors ''fill'' red, Output ''rectangle'' rect_args] canvas100) ''rectangle'' =
       Some [rect_record ''white'', rect_record ''red'']"
proof -
  have g1: "no_duplicates (shapes (ingredients s)) \<longrightarrow>
      no_duplicates (shapes (ingredients (run rgbColorName cs s)))"
    using run_no_duplicates [of s rgbColorName cs] by simp
  have g2: "no_duplicates (shapes (ingredients (accsBackground rgbColorName c s)))"
    by (simp add: accsBackground_shapes no_duplicates_Nil)
  have g3: "lookup (accsOutput f args s) (reclassify f args) =
       Some (stored (lookup s (reclassify f args)) (describe (reclassify f args) args s))"
    by (simp add: accsOutput_store store_lookup)
  have g4: "lookup s (reclassify f args) = None \<longrightarrow>
        lookup (accsOutput f args s) (reclassify f args) = Some [describe (reclassify f args) args s]"
    by (simp add: g3 stored_def)
  have e1: "lookup (run red_or_white [Output ''rectangle'' rect_args, Output ''rectangle'' rect_args]
        canvas100) ''rectangle'' = Some [rect_record ''white'']"
    by (simp add: rect_twice) (simp add: rect_once lookup_def)
  have e2: "lookup (run red_or_white [Output ''rectangle'' rect_args, Output ''rectangle'' rect_args,
        CanvasColors ''fill'' red, Output ''rectangle'' rect_args] canvas100) ''rectangle'' =
       Some [rect_record ''white'', rect_record ''red'']"
    by (simp add: rect_twice) (simp add: rect_red lookup_def)
  from g1 g2 g3 g4 e1 e2 show ?thesis
    by (intro conjI)
qed

theorem registry_deduplication_witness:
  "no_duplicates (shapes (ingredients canvas100))
   \<and> no_duplicates (shapes (ingredients
        (run red_or_white [Output ''rectangle'' rect_args, CanvasColors ''fill'' red,
           Output ''rectangle'' rect_args] canvas100)))
   \<and> lookup canvas100 (reclassify ''rectangle'' rect_args) = None
   \<and> lookup (accsOutput ''rectangle'' rect_args canvas100) ''rectangle'' =
       Some [rect_record ''white'']"
proof -
  have 1: "no_duplicates (shapes (ingredients canvas100))"
    by (simp add: canvas100_def no_duplicates_Nil)
  have 2: "lookup canvas100 (reclassify ''rectangle'' rect_args) = None"
    by (simp add: lookup_def canvas100_def)
  have 3: "describe ''rectangle'' rect_args canvas100 = rect_record ''white''"
    by (simp add: rect_describe canvas100_def)
  show ?thesis
    using 1 2 3
      registry_deduplication [of canvas100 red_or_white
        "[Output ''rectangle'' rect_args, CanvasColors ''fill'' red, Output ''rectangle'' rect_args]"
        red "''rectangle''" rect_args]
    by (simp add: rect_reclassify stored_def)
qed

text \<open>
  C10. A call of \<open>_accsOutput\<close> either puts exactly one record at the end of the sequence
  of the (renamed) kind, or returns the instance as it was. The sequence of every other
  kind is the same before and after, and the order of the kinds in the registry is kept,
  a new kind coming last. So along calls none of which is a background call, the
  sequence a kind had at the start is a prefix of the sequence it has at the end.
\<close>

theorem accsOutput_append_only:
  "(lookup (accsOutput f args s) (reclassify f args) =
      Some ((case lookup s (reclassify f args) of None \<Rightarrow> [] | Some rs \<Rightarrow> rs)
            @ [describe (reclassify f args) args s])
    \<or> accsOutput f args s = s)
   \<and> (k \<noteq> reclassify f args \<longrightarrow> lookup (accsOutput f args s) k = lookup s k)
   \<and> map fst (shapes (ingredients (accsOutput f args s))) =
       map fst (shapes (ingredients s)) @ (if lookup s (reclassify f args) = None then [reclassify f args] else [])
   \<and> ((\<forall>c \<in> set cs. \<not> is_Background c) \<and> lookup s k = Some rs \<longrightarrow>
        (\<exists>rs'. lookup (run rgbColorName cs s) k = Some rs' \<and> prefix rs rs'))"
  using store_cases [of "reclassify f args" "describe (reclassify f args) args s" s]
    run_prefix [of cs s k rs rgbColorName]
  by (simp add: accsOutput_store store_lookup store_keys)

theorem accsOutput_append_only_witness:
  "''rectangle'' \<noteq> reclassify ''rectangle'' square_args
   \<and> \<not> is_Background (Output ''rectangle'' rect_args :: nat list call)
   \<and> lookup (accsOutput ''rectangle'' rect_args canvas100) ''rectangle'' =
       Some [rect_record ''white'']
   \<and> lookup (accsOutput ''rectangle'' square_args (accsOutput ''rectangle'' rect_args canvas100))
        ''rectangle'' = Some [rect_record ''white'']
   \<and> (\<exists>rs'. lookup (run red_or_white [Output ''rectangle'' rect_args]
                 (accsOutput ''rectangle'' rect_args canvas100)) ''rectangle'' = Some rs'
            \<and> prefix [rect_record ''white''] rs')"
proof -
  have 1: "reclassify ''rectangle'' square_args = ''square''"
    by (simp add: reclassify_def square_args_def arg_def)
  have 2: "lookup (accsOutput ''rectangle'' rect_args canvas100) ''rectangle'' =
       Some [rect_record ''white'']"
    by (simp add: rect_once lookup_def)
  have 3: "\<forall>c \<in> set [Output ''rectangle'' rect_args :: nat list call]. \<not> is_Background c"
    by simp
  show ?thesis
    using 1 2 3
      accsOutput_append_only [of "''rectangle''" square_args
        "accsOutput ''rectangle'' rect_args canvas100" "''rectangle''"
        "[Output ''rectangle'' rect_args]" "[rect_record ''white'']" red_or_white]
    by simp
qed

subsection \<open>Renaming of the kind\<close>

text \<open>
  C4. When the two size arguments are strictly equal, a call with kind \<open>ellipse\<close> is the
  storing of the record described for kind \<open>circle\<close> under \<open>circle\<close>, and a call with
  kind \<open>rectangle\<close> is the storing of the record described for kind \<open>square\<close> under
  \<open>square\<close>: the sequence of \<open>ellipse\<close> (of \<open>rectangle\<close>) is untouched, the record is in
  the sequence of \<open>circle\<close> (of \<open>square\<close>) afterwards, and its position, grid cell and
  area are computed from the centroid and the area formula of the new kind.
\<close>

theorem equal_sizes_reclassified:
  assumes "arg args 2 = arg args 3"
  shows "accsOutput ''ellipse'' args s = store ''circle'' (describe ''circle'' args s) s
   \<and> accsOutput ''rectangle'' args s = store ''square'' (describe ''square'' args s) s
   \<and> lookup (accsOutput ''ellipse'' args s) ''ellipse'' = lookup s ''ellipse''
   \<and> lookup (accsOutput ''rectangle'' args s) ''rectangle'' = lookup s ''rectangle''
   \<and> (\<exists>rs. lookup (accsOutput ''ellipse'' args s) ''circle'' = Some rs
            \<and> describe ''circle'' args s \<in> set rs)
   \<and> (\<exists>rs. lookup (accsOutput ''rectangle'' args s) ''square'' = Some rs
            \<and> describe ''square'' args s \<in> set rs)
   \<and> describe ''circle'' args s =
       \<lparr>color = fill (colors (ingredients s)), length_px = None,
        area = Some (getArea ''circle'' args (width s) (height s)),
        pos = getPos (getMiddle ''circle'' args) (width s) (height s),
        loc = canvasLocator (getMiddle ''circle'' args) (width s) (height s)\<rparr>
   \<and> describe ''square'' args s =
       \<lparr>color = fill (colors (ingredients s)), length_px = None,
        area = Some (getArea ''square'' args (width s) (height s)),
        pos = getPos (getMiddle ''square'' args) (width s) (height s),
        loc = canvasLocator (getMiddle ''square'' args) (width s) (height s)\<rparr>"
proof -
  have c: "reclassify ''ellipse'' args = ''circle''"
    and q: "reclassify ''rectangle'' args = ''square''"
    using assms by (simp_all add: reclassify_def)
  have 1: "accsOutput ''ellipse'' args s = store ''circle'' (describe ''circle'' args s) s"
    by (simp add: accsOutput_store c)
  have 2: "accsOutput ''rectangle'' args s = store ''square'' (describe ''square'' args s) s"
    by (simp add: accsOutput_store q)
  have 3: "lookup (accsOutput ''ellipse'' args s) ''ellipse'' = lookup s ''ellipse''"
    by (simp add: 1 store_lookup)
  have 4: "lookup (accsOutput ''rectangle'' args s) ''rectangle'' = lookup s ''rectangle''"
    by (simp add: 2 store_lookup)
  have 5: "\<exists>rs. lookup (accsOutput ''ellipse'' args s) ''circle'' = Some rs
            \<and> describe ''circle'' args s \<in> set rs"
    by (simp add: 1 store_lookup stored_member)
  have 6: "\<exists>rs. lookup (accsOutput ''rectangle'' args s) ''square'' = Some rs
            \<and> describe ''square'' args s \<in> set rs"
    by (simp add: 2 store_lookup stored_member)
  have 7: "describe ''circle'' args s =
       \<lparr>color = fill (colors (ingredients s)), length_px = None,
        area = Some (getArea ''circle'' args (width s) (height s)),
        pos = getPos (getMiddle ''circle'' args) (width s) (height s),
        loc = canvasLocator (getMiddle ''circle'' args) (width s) (height s)\<rparr>"
    by (rule describe_filled) simp_all
  have 8: "describe ''square'' args s =
       \<lparr>color = fill (colors (ingredients s)), length_px = None,
        area = Some (getArea ''square'' args (width s) (height s)),
        pos = getPos (getMiddle ''square'' args) (width s) (height s),
        loc = canvasLocator (getMiddle ''square'' args) (width s) (height s)\<rparr>"
    by (rule describe_filled) simp_all
  from 1 2 3 4 5 6 7 8 show ?thesis
    by (intro conjI)
qed

theorem equal_sizes_reclassified_witness:
  "arg square_args 2 = arg square_args 3
   \<and> shapes (ingredients (accsOutput ''rectangle'' square_args canvas100)) =
      [(''square'', [\<lparr>color = ''white'', length_px = None, area = Some (Some 9),
                      pos = ''bottom right'', loc = (Some 7, Some 7)\<rparr>])]"
proof -
  have h: "arg square_args 2 = arg square_args 3"
    by (simp add: square_args_def arg_def)
  have "store ''square'' (describe ''square'' square_args canvas100) canvas100 =
        canvas100\<lparr>ingredients := (ingredients canvas100)
          \<lparr>shapes := [(''square'', [\<lparr>color = ''white'', length_px = None, area = Some (Some 9),
                      pos = ''bottom right'', loc = (Some 7, Some 7)\<rparr>])]\<rparr>\<rparr>"
    by (simp add: describe_filled square_middle square_cell square_area square_pos)
       (simp add: canvas100_def store_def square_cell square_area square_pos)
  with h equal_sizes_reclassified [OF h, of canvas100] show ?thesis
    by simp
qed

subsection \<open>Range of the grid cell\<close>

text \<open>
  C7, as the code has it. On a canvas of positive width and height, for a shape whose
  centroid \<open>(x, y)\<close> as \<open>_getMiddle\<close> computes it is finite, the grid cell of the record
  has both components in 0 to 9 exactly when \<open>0 \<le> x < 1.1 * width\<close> and
  \<open>0 \<le> y < 1.1 * height\<close>. So when the centroid is inside the canvas and the cells of
  the registry were in range before the call, they are in range after it.
\<close>

theorem grid_cell_range:
  assumes "0 < width s" and "0 < height s"
    and "getMiddle (reclassify f args) args = (Some x, Some y)"
  shows "grid_in_range (loc (describe (reclassify f args) args s)) =
           (0 \<le> x \<and> 10 * x < 11 * width s \<and> 0 \<le> y \<and> 10 * y < 11 * height s)
   \<and> (0 \<le> x \<and> x \<le> width s \<and> 0 \<le> y \<and> y \<le> height s \<and> grid_cells_in_range s \<longrightarrow>
        grid_cells_in_range (accsOutput f args s))"
proof -
  have 1: "grid_in_range (loc (describe (reclassify f args) args s)) =
           (0 \<le> x \<and> 10 * x < 11 * width s \<and> 0 \<le> y \<and> 10 * y < 11 * height s)"
    using assms by (simp add: describe_loc canvasLocator_range_iff)
  have "grid_cells_in_range (accsOutput f args s)"
    if "0 \<le> x" "x \<le> width s" "0 \<le> y" "y \<le> height s" "grid_cells_in_range s"
  proof -
    have "grid_in_range (loc (describe (reclassify f args) args s))"
      using that assms by (simp add: 1)
    with that show ?thesis
      by (simp add: accsOutput_store store_grid_cells)
  qed
  with 1 show ?thesis
    by blast
qed

theorem grid_cell_range_witness:
  "(0::real) < width canvas100 \<and> 0 < height canvas100
   \<and> getMiddle (reclassify ''rectangle'' rect_args) rect_args = (Some 35, Some 20)
   \<and> grid_cells_in_range canvas100
   \<and> grid_in_range (loc (describe ''rectangle'' rect_args canvas100))
   \<and> grid_cells_in_range (accsOutput ''rectangle'' rect_args canvas100)"
proof -
  have w: "0 < width canvas100" and h: "0 < height canvas100"
    by (simp_all add: canvas100_def)
  have m: "getMiddle (reclassify ''rectangle'' rect_args) rect_args = (Some 35, Some 20)"
    by (simp add: rect_reclassify rect_middle)
  have i: "grid_cells_in_range canvas100"
    by (simp add: grid_cells_in_range_def lookup_def canvas100_def)
  have d: "width canvas100 = 100" "height canvas100 = 100"
    by (simp_all add: canvas100_def)
  show ?thesis
    using grid_cell_range [OF w h m] w h m i
    by (simp add: d rect_reclassify)
qed

text \<open>A point drawn to the right of a 100 by 100 canvas is recorded in column 15.\<close>

theorem grid_cell_off_canvas:
  "shapes (ingredients (accsOutput ''point'' [Num 150, Num 50] canvas100)) =
     [(''point'', [\<lparr>color = ''black'', length_px = None, area = None, pos = ''mid right'',
                    loc = (Some 15, Some 5)\<rparr>])]
   \<and> \<not> grid_in_range (Some 15, Some 5)"
proof -
  have m: "getMiddle ''point'' [Num 150, Num 50] = (Some 150, Some 50)"
    by (simp add: getMiddle_def arg_def)
  have l: "canvasLocator (Some 150, Some 50) 100 100 = (Some 15, Some 5)"
    by (simp add: canvasLocator_def Math_floor_def)
  have p: "getPos (Some 150, Some 50) 100 100 = ''mid right''"
    by (simp add: getPos_def)
  have r: "reclassify ''point'' [Num 150, Num 50] = ''point''"
    by (simp add: reclassify_def)
  have "describe ''point'' [Num 150, Num 50] canvas100 =
      \<lparr>color = ''black'', length_px = None, area = None, pos = ''mid right'',
       loc = (Some 15, Some 5)\<rparr>"
    by (simp add: describe_def m) (simp add: canvas100_def l p)
  then show ?thesis
    by (simp add: accsOutput_store r) (simp add: store_def canvas100_def)
qed

subsection \<open>Regeneration of the outputs\<close>

lemma updateAccsOutput_changed:
  "Some (JSON_stringify (shapes (ingredients s))) \<noteq> pShapes (ingredients s) \<Longrightarrow>
   updateAccsOutput s =
     s\<lparr>ingredients := (ingredients s)\<lparr>pShapes := Some (JSON_stringify (shapes (ingredients s)))\<rparr>,
       regenerated := regenerated s @ requests s\<rparr>"
  by (simp add: updateAccsOutput_def Let_def updateTextOutput_def updateGridOutput_def requests_def)

lemma updateAccsOutput_unchanged:
  "Some (JSON_stringify (shapes (ingredients s))) = pShapes (ingredients s) \<Longrightarrow>
   updateAccsOutput s = s"
  by (simp add: updateAccsOutput_def)

lemma updateAccsOutput_snapshot:
  "pShapes (ingredients (updateAccsOutput s)) = Some (JSON_stringify (shapes (ingredients s)))"
  by (cases "Some (JSON_stringify (shapes (ingredients s))) = pShapes (ingredients s)")
     (simp_all add: updateAccsOutput_unchanged updateAccsOutput_changed)

lemma accsCanvasColors_snapshot:
  "pShapes (ingredients (accsCanvasColors nm f c s)) = pShapes (ingredients s)"
  by (simp add: accsCanvasColors_def)

text \<open>
  C3. \<open>_updateAccsOutput\<close> acts exactly when the serialised registry differs from the
  stored snapshot: it then makes the serialisation the new snapshot and sends the
  requests of the flags that are on; when the two are equal it returns the instance as
  it is. Hence a second call right after a first one is the identity and sends nothing,
  and so is a second call after colour calls only.
\<close>

theorem updateAccsOutput_idempotent:
  "(Some (JSON_stringify (shapes (ingredients s))) \<noteq> pShapes (ingredients s) \<longrightarrow>
      updateAccsOutput s =
        s\<lparr>ingredients := (ingredients s)
             \<lparr>pShapes := Some (JSON_stringify (shapes (ingredients s)))\<rparr>,
          regenerated := regenerated s @ requests s\<rparr>)
   \<and> (Some (JSON_stringify (shapes (ingredients s))) = pShapes (ingredients s) \<longrightarrow>
        updateAccsOutput s = s)
   \<and> updateAccsOutput (updateAccsOutput s) = updateAccsOutput s
   \<and> regenerated (updateAccsOutput (updateAccsOutput s)) = regenerated (updateAccsOutput s)
   \<and> updateAccsOutput (accsCanvasColors rgbColorName f c (updateAccsOutput s)) =
       accsCanvasColors rgbColorName f c (updateAccsOutput s)"
proof -
  have 1: "updateAccsOutput (updateAccsOutput s) = updateAccsOutput s"
    by (rule updateAccsOutput_unchanged)
       (simp add: updateAccsOutput_snapshot updateAccsOutput_shapes)
  have 2: "updateAccsOutput (accsCanvasColors rgbColorName f c (updateAccsOutput s)) =
       accsCanvasColors rgbColorName f c (updateAccsOutput s)"
    by (rule updateAccsOutput_unchanged)
       (simp add: accsCanvasColors_snapshot accsCanvasColors_shapes updateAccsOutput_snapshot
          updateAccsOutput_shapes)
  show ?thesis
    using updateAccsOutput_changed [of s] updateAccsOutput_unchanged [of s] 1 2
    by simp
qed

theorem updateAccsOutput_idempotent_witness:
  "Some (JSON_stringify (shapes (ingredients (accsOutput ''rectangle'' rect_args canvas100)))) \<noteq>
     pShapes (ingredients (accsOutput ''rectangle'' rect_args canvas100))
   \<and> regenerated (updateAccsOutput (accsOutput ''rectangle'' rect_args canvas100)) =
       [TextOutput ''defaultCanvas0textOutput'']
   \<and> regenerated (updateAccsOutput (updateAccsOutput
         (accsOutput ''rectangle'' rect_args canvas100))) = [TextOutput ''defaultCanvas0textOutput'']
   \<and> Some (JSON_stringify (shapes (ingredients
         (updateAccsOutput (accsOutput ''rectangle'' rect_args canvas100))))) =
       pShapes (ingredients (updateAccsOutput (accsOutput ''rectangle'' rect_args canvas100)))"
proof -
  let ?s = "accsOutput ''rectangle'' rect_args canvas100"
  note T = updateAccsOutput_idempotent [of ?s red_or_white "''fill''" red]
  have d: "Some (JSON_stringify (shapes (ingredients ?s))) \<noteq> pShapes (ingredients ?s)"
    by (simp add: rect_once) (simp add: canvas100_def)
  have r: "requests ?s = [TextOutput ''defaultCanvas0textOutput'']"
    by (simp add: rect_once requests_def) (simp add: canvas100_def)
  have g: "regenerated ?s = []"
    by (simp add: rect_once) (simp add: canvas100_def)
  from T d have u: "updateAccsOutput ?s =
      ?s\<lparr>ingredients := (ingredients ?s)
             \<lparr>pShapes := Some (JSON_stringify (shapes (ingredients ?s)))\<rparr>,
          regenerated := regenerated ?s @ requests ?s\<rparr>"
    by blast
  have 1: "regenerated (updateAccsOutput ?s) = [TextOutput ''defaultCanvas0textOutput'']"
    by (simp add: u r g)
  from T have "regenerated (updateAccsOutput (updateAccsOutput ?s)) =
      regenerated (updateAccsOutput ?s)"
    by blast
  with 1 have 2: "regenerated (updateAccsOutput (updateAccsOutput ?s)) =
      [TextOutput ''defaultCanvas0textOutput'']"
    by simp
  have 3: "Some (JSON_stringify (shapes (ingredients (updateAccsOutput ?s)))) =
       pShapes (ingredients (updateAccsOutput ?s))"
    by (simp add: u)
  from d 1 2 3 show ?thesis
    by (intro conjI)
qed

subsection \<open>Background\<close>

text \<open>
  C8. After \<open>_accsBackground\<close> the snapshot is the serialisation of the registry as it
  was before the call and the registry is empty. The background value and its name are
  replaced by the argument and its name when the argument is not identical (\<open>!==\<close>) to
  the stored value, and all colours stay as they are otherwise. Fill and stroke, with
  their values, and every other part of the instance are the same before and after.
\<close>

theorem accsBackground_effect:
  "pShapes (ingredients (accsBackground rgbColorName c s)) =
     Some (JSON_stringify (shapes (ingredients s)))
   \<and> shapes (ingredients (accsBackground rgbColorName c s)) = []
   \<and> (backgroundRGBA (colors (ingredients s)) \<noteq> Some c \<longrightarrow>
        backgroundRGBA (colors (ingredients (accsBackground rgbColorName c s))) = Some c
        \<and> background (colors (ingredients (accsBackground rgbColorName c s))) = rgbColorName c)
   \<and> (backgroundRGBA (colors (ingredients s)) = Some c \<longrightarrow>
        colors (ingredients (accsBackground rgbColorName c s)) = colors (ingredients s))
   \<and> fill (colors (ingredients (accsBackground rgbColorName c s))) = fill (colors (ingredients s))
   \<and> fillRGBA (colors (ingredients (accsBackground rgbColorName c s))) =
       fillRGBA (colors (ingredients s))
   \<and> stroke (colors (ingredients (accsBackground rgbColorName c s))) =
       stroke (colors (ingredients s))
   \<and> strokeRGBA (colors (ingredients (accsBackground rgbColorName c s))) =
       strokeRGBA (colors (ingredients s))
   \<and> accessibleOutputs (accsBackground rgbColorName c s) = accessibleOutputs s
   \<and> canvas_id (accsBackground rgbColorName c s) = canvas_id s
   \<and> width (accsBackground rgbColorName c s) = width s
   \<and> height (accsBackground rgbColorName c s) = height s
   \<and> regenerated (accsBackground rgbColorName c s) = regenerated s"
  by (simp add: accsBackground_def Let_def)

theorem accsBackground_effect_witness:
  "backgroundRGBA (colors (ingredients (accsOutput ''rectangle'' rect_args canvas100))) \<noteq> Some red
   \<and> pShapes (ingredients
        (accsBackground red_or_white red (accsOutput ''rectangle'' rect_args canvas100))) =
       Some (JSON [(''rectangle'', [rect_record ''white''])])
   \<and> background (colors (ingredients
        (accsBackground red_or_white red (accsOutput ''rectangle'' rect_args canvas100)))) = ''red''
   \<and> backgroundRGBA (colors (ingredients (accsBackground red_or_white red canvas100))) = Some red
   \<and> colors (ingredients
        (accsBackground red_or_white red (accsBackground red_or_white red canvas100))) =
       colors (ingredients (accsBackground red_or_white red canvas100))"
proof -
  let ?s = "accsOutput ''rectangle'' rect_args canvas100"
  let ?b = "accsBackground red_or_white red canvas100"
  note S = accsBackground_effect [of red_or_white red ?s]
  note B = accsBackground_effect [of red_or_white red ?b]
  have 1: "backgroundRGBA (colors (ingredients ?s)) \<noteq> Some red"
    by (simp add: rect_once) (simp add: canvas100_def)
  have n: "red_or_white red = ''red''"
    by (simp add: red_or_white_def red_def)
  have r: "shapes (ingredients ?s) = [(''rectangle'', [rect_record ''white''])]"
    by (simp add: rect_once)
  from S have "pShapes (ingredients (accsBackground red_or_white red ?s)) =
      Some (JSON_stringify (shapes (ingredients ?s)))"
    by blast
  then have 2: "pShapes (ingredients (accsBackground red_or_white red ?s)) =
       Some (JSON [(''rectangle'', [rect_record ''white''])])"
    by (simp add: r JSON_stringify_def)
  from S 1 have "background (colors (ingredients (accsBackground red_or_white red ?s))) =
      red_or_white red"
    by blast
  then have 3: "background (colors (ingredients (accsBackground red_or_white red ?s))) = ''red''"
    by (simp add: n)
  have 4: "backgroundRGBA (colors (ingredients ?b)) = Some red"
    by (simp add: accsBackground_def canvas100_def)
  from B 4 have 5: "colors (ingredients (accsBackground red_or_white red ?b)) =
      colors (ingredients ?b)"
    by blast
  from 1 2 3 4 5 show ?thesis
    by (intro conjI)
qed

subsection \<open>Lines\<close>

lemma line_dist: "dist4 (Some 10) (Some 10) (Some 10) (Some 90) = Some 80"
proof -
  have "sqrt ((80::real)\<^sup>2) = 80"
    by simp
  then show ?thesis
    by simp
qed

lemma line_pos_ignores_ordinates:
  "pos (describe ''line'' [Num x1, Num y1, Num x2, Num y2] s) =
   pos (describe ''line'' [Num x1, Num 1, Num x2, Num 3] s)"
  by (simp add: describe_def arg_def Let_def)

text \<open>
  C2, evaluated. The line from (10, 10) to (10, 90) on the 100 by 100 canvas is recorded
  with the stroke colour and the rounded length 80, but with the position
  \<open>at top left\<close>, although \<open>_getPos\<close> names its two end points \<open>top left\<close> and
  \<open>bottom left\<close>: the ordinates of the end points do not enter the position of any line.
\<close>

theorem line_position_ignores_y:
  "describe ''line'' line_args canvas100 =
     \<lparr>color = ''black'', length_px = Some (Some 80), area = None, pos = ''at top left'',
      loc = (Some 1, Some 5)\<rparr>
   \<and> getPos (Some 10, Some 10) 100 100 = ''top left''
   \<and> getPos (Some 10, Some 90) 100 100 = ''bottom left''
   \<and> pos (describe ''line'' [Num x1, Num y1, Num x2, Num y2] s) =
       pos (describe ''line'' [Num x1, Num 1, Num x2, Num 3] s)"
proof -
  have m: "getMiddle ''line'' line_args = (Some 10, Some 50)"
    by (simp add: getMiddle_def line_args_def arg_def)
  have l: "canvasLocator (Some 10, Some 50) 100 100 = (Some 1, Some 5)"
    by (simp add: canvasLocator_def Math_floor_def)
  have p1: "getPos (Some 10, Some 1) 100 100 = ''top left''"
    and p2: "getPos (Some 10, Some 3) 100 100 = ''top left''"
    and q1: "getPos (Some 10, Some 10) 100 100 = ''top left''"
    and q2: "getPos (Some 10, Some 90) 100 100 = ''bottom left''"
    by (simp_all add: getPos_def)
  have a: "ToNumber (arg line_args 0) = Some 10" "ToNumber (arg line_args (Suc 0)) = Some 10"
    "ToNumber (arg line_args 2) = Some 10" "ToNumber (arg line_args 3) = Some 90"
    by (simp_all add: line_args_def arg_def)
  have "describe ''line'' line_args canvas100 =
     \<lparr>color = ''black'', length_px = Some (Some 80), area = None, pos = ''at top left'',
      loc = (Some 1, Some 5)\<rparr>"
    by (simp add: describe_def m a line_dist Math_round_def)
       (simp add: canvas100_def l p1 p2)
  with q1 q2 line_pos_ignores_ordinates [of x1 y1 x2 y2 s] show ?thesis
    by (intro conjI)
qed

subsection \<open>Area of an arc\<close>

lemma trunc_frac: "- 1 < x - of_int (trunc x) \<and> x - of_int (trunc x) < 1"
  unfolding trunc_def by (auto; linarith)

lemma trunc_nonneg: "0 \<le> x \<Longrightarrow> trunc x = \<lfloor>x\<rfloor>"
  by (simp add: trunc_def)

lemma jrem_normalised:
  assumes "0 < P"
  shows "jrem (jadd (jrem (Some d) (Some P)) (Some P)) (Some P) =
         Some (d - P * of_int \<lfloor>d / P\<rfloor>)"
proof -
  define t where "t = trunc (d / P)"
  define r where "r = d - P * of_int t"
  have q: "(r + P) / P = d / P - of_int t + 1"
    using assms by (simp add: r_def field_simps)
  have "- 1 < d / P - of_int t"
    using trunc_frac [of "d / P"] by (simp add: t_def)
  then have "0 \<le> (r + P) / P"
    by (simp add: q)
  then have "trunc ((r + P) / P) = \<lfloor>(r + P) / P\<rfloor>"
    by (rule trunc_nonneg)
  also have "\<dots> = \<lfloor>d / P\<rfloor> - t + 1"
    by (simp add: q)
  finally have k: "trunc ((r + P) / P) = \<lfloor>d / P\<rfloor> - t + 1" .
  have "r + P - P * of_int (trunc ((r + P) / P)) = d - P * of_int \<lfloor>d / P\<rfloor>"
    unfolding k by (simp add: r_def algebra_simps)
  moreover have "jrem (jadd (jrem (Some d) (Some P)) (Some P)) (Some P) =
      Some (r + P - P * of_int (trunc ((r + P) / P)))"
    using assms unfolding r_def t_def by simp
  ultimately show ?thesis
    by simp
qed

lemma swept_spec_range: "0 \<le> swept_spec start stop \<and> swept_spec start stop < 2 * pi"
proof -
  define d where "d = stop - start"
  define P where "P = 2 * pi"
  have P: "0 < P"
    by (simp add: P_def)
  have "of_int \<lfloor>d / P\<rfloor> * P \<le> d"
    using P by (rule floor_divide_lower)
  moreover have "d < (of_int \<lfloor>d / P\<rfloor> + 1) * P"
    using P by (rule floor_divide_upper)
  ultimately have "0 \<le> d - P * of_int \<lfloor>d / P\<rfloor>" and "d - P * of_int \<lfloor>d / P\<rfloor> < P"
    by (simp_all add: algebra_simps)
  then show ?thesis
    by (simp add: swept_spec_def d_def P_def)
qed

lemma shoelace:
  "\<bar>ax * (by - cy) + bx * (cy - ay) + cx * (ay - by)\<bar> / 2 =
   triangle_spec (ax, ay) (bx, by) (cx, cy)"
proof -
  have "ax * (by - cy) + bx * (cy - ay) + cx * (ay - by) =
        (bx - ax) * (cy - ay) - (cx - ax) * (by - ay)"
    by (simp add: algebra_simps)
  then show ?thesis
    by (simp add: triangle_spec_def)
qed


lemma toFixed2_Some: "toFixed2 (Some v) = Some (fixed2 v)"
  by (simp add: toFixed2_def)

lemma two_pi_normalised:
  "jrem (jadd (jrem (Some (stop - start)) (Some (pi * 2))) (Some (pi * 2))) (Some (pi * 2)) =
   Some (swept_spec start stop)"
  using jrem_normalised [of "pi * 2" "stop - start"]
  by (simp add: swept_spec_def mult.commute)

lemma fixed2_two_decimals: "fixed2 v = two_decimals v"
proof (cases "v < 0")
  case True
  then have "\<bar>v\<bar> * 100 = - v * 100" and "sgn v = - 1"
    by simp_all
  with True show ?thesis
    by (simp add: fixed2_def two_decimals_def round_def)
next
  case False
  then have "\<bar>v\<bar> * 100 = v * 100"
    by simp
  show ?thesis
  proof (cases "v = 0")
    case True
    then show ?thesis
      by (simp add: fixed2_def two_decimals_def)
  next
    case False
    with \<open>\<not> v < 0\<close> have "sgn v = 1"
      by simp
    with \<open>\<not> v < 0\<close> \<open>\<bar>v\<bar> * 100 = v * 100\<close> show ?thesis
      by (simp add: fixed2_def two_decimals_def round_def)
  qed
qed

lemma arc_area_general:
  assumes "canvasWidth \<noteq> 0" and "canvasHeight \<noteq> 0"
  shows "getArea ''arc'' [Num x, Num y, Num dx, Num dy, Num start, Num stop, mode]
           canvasWidth canvasHeight =
         Some (round (arc_area_of endpoint_two_decimals x y dx dy start stop mode * 100 /
                        (canvasWidth * canvasHeight)))"
proof -
  let ?B = "endpoint_two_decimals (x, y) dx dy start"
  let ?C = "endpoint_two_decimals (x, y) dx dy stop"
  have t: "\<bar>x * (snd ?B - snd ?C) + fst ?B * (snd ?C - y) + fst ?C * (y - snd ?B)\<bar> / 2 =
        triangle_spec (x, y) ?B ?C"
    using shoelace [of x "snd ?B" "snd ?C" "fst ?B" y "fst ?C"] by simp
  show ?thesis
    using assms
    apply (simp add: getArea_def arg_def Math_PI_def Math_cos_def Math_sin_def Math_abs_def
        toFixed2_Some fixed2_two_decimals Math_round_def Let_def two_pi_normalised
        arc_area_of_def del: jrem.simps)
    apply (simp add: t [unfolded endpoint_two_decimals_def, simplified]
        endpoint_two_decimals_def)
    apply (simp add: mult.commute)
    done
qed

text \<open>
  C9, as the code has it. For an arc given by numbers, on a canvas of non-zero width and
  height, \<open>_getArea\<close> returns the rounded percentage of the canvas made up by this area:
  the swept angle, normalised into \<open>[0, 2 * pi)\<close>, times the two size arguments over 8,
  plus the triangle of the centre and the two end points when the mode is \<open>open\<close> or
  \<open>chord\<close> and the swept angle exceeds \<open>pi\<close>, minus that triangle when the mode is one
  of the two and the angle does not exceed \<open>pi\<close>. The end points of the triangle are
  projected with the cosine and the sine of the angle rounded to two decimals, not with
  their exact values. An arc without a mode argument is treated as one whose mode is
  \<open>undefined\<close>.
\<close>

theorem arc_area:
  "(canvasWidth \<noteq> 0 \<and> canvasHeight \<noteq> 0 \<longrightarrow>
      getArea ''arc'' [Num x, Num y, Num dx, Num dy, Num start, Num stop, mode]
        canvasWidth canvasHeight =
      Some (round (arc_area_of endpoint_two_decimals x y dx dy start stop mode * 100 /
                     (canvasWidth * canvasHeight))))
   \<and> 0 \<le> swept_spec start stop \<and> swept_spec start stop < 2 * pi
   \<and> getArea ''arc'' [Num x, Num y, Num dx, Num dy, Num start, Num stop]
         canvasWidth canvasHeight =
       getArea ''arc'' [Num x, Num y, Num dx, Num dy, Num start, Num stop, Undefined]
         canvasWidth canvasHeight"
proof -
  have "getArea ''arc'' [Num x, Num y, Num dx, Num dy, Num start, Num stop]
         canvasWidth canvasHeight =
       getArea ''arc'' [Num x, Num y, Num dx, Num dy, Num start, Num stop, Undefined]
         canvasWidth canvasHeight"
    by (simp add: getArea_def arg_def del: jrem.simps)
  then show ?thesis
    using arc_area_general [of canvasWidth canvasHeight x y dx dy start stop mode]
      swept_spec_range [of start stop]
    by blast
qed

lemma two_decimals_int: "two_decimals 0 = 0" "two_decimals 1 = 1" "two_decimals (- 1) = - 1"
  by (simp_all add: two_decimals_def)

lemma swept_three_quarters: "swept_spec 0 (3 * pi / 2) = 3 * pi / 2"
  by (simp add: swept_spec_def)

lemma three_quarter_endpoints:
  "endpoint_two_decimals (50, 50) 16 10 0 = (58, 50)"
  "endpoint_two_decimals (50, 50) 16 10 (3 * pi / 2) = (50, 45)"
proof -
  have "cos (3 * pi / 2) = 0" and "sin (3 * pi / 2) = - 1"
    using cos_3over2_pi sin_3over2_pi by (simp_all add: mult.commute)
  then show "endpoint_two_decimals (50, 50) 16 10 (3 * pi / 2) = (50, 45)"
    by (simp add: endpoint_two_decimals_def two_decimals_int)
  show "endpoint_two_decimals (50, 50) 16 10 0 = (58, 50)"
    by (simp add: endpoint_two_decimals_def two_decimals_int)
qed

lemma three_quarter_area:
  "arc_area_of endpoint_two_decimals 50 50 16 10 0 (3 * pi / 2) (Str ''open'') = 30 * pi + 20"
proof -
  have "pi < 3 * pi / 2"
    by simp
  then show ?thesis
    by (simp add: arc_area_of_def swept_three_quarters three_quarter_endpoints
        triangle_spec_def)
qed

lemma round_three_quarter: "round ((30 * pi + 20) * 100 / (100 * 100)) = 1"
proof -
  have b: "2 \<le> pi" "pi < 4"
    by (rule pi_ge_two, rule pi_less_4)
  from b have "1 \<le> (30 * pi + 20) * 100 / (100 * 100) + 1 / 2"
    by argo
  moreover from b have "(30 * pi + 20) * 100 / (100 * 100) + 1 / 2 < 2"
    by argo
  ultimately have "\<lfloor>(30 * pi + 20) * 100 / (100 * 100) + 1 / 2\<rfloor> = 1"
    by (simp only: floor_eq_iff) simp
  then show ?thesis
    by (simp only: round_def)
qed

theorem arc_area_witness:
  "(100::real) \<noteq> 0
   \<and> getArea ''arc'' [Num 50, Num 50, Num 16, Num 10, Num 0, Num (3 * pi / 2), Str ''open'']
        100 100 = Some 1"
  using arc_area [of 100 100 50 50 16 10 0 "3 * pi / 2" "Str ''open''"]
  by (simp only: three_quarter_area round_three_quarter) simp

text \<open>
  With the end points on the ellipse itself the area is another one. For the chord arc
  of sizes 66 and 38 from angle 0 to angle 1, on the 100 by 100 canvas, the code rounds
  the sine of 1 to 0.84 and returns 1 per cent, while the triangle with the exact sine
  gives an area that rounds to 0 per cent.
\<close>

lemma sin_one_bounds: "4241 / 5040 \<le> sin (1::real)" "sin (1::real) \<le> 4243 / 5040"
proof -
  have "{..<7::nat} = {0, 1, 2, 3, 4, 5, 6}"
    by auto
  then have s: "(\<Sum>m<7. sin_coeff m * (1::real) ^ m) = 101 / 120"
    by (simp add: sin_coeff_def fact_numeral)
  have "\<bar>sin (1::real) - (\<Sum>m<7. sin_coeff m * 1 ^ m)\<bar> \<le> inverse (fact 7) * \<bar>1\<bar> ^ 7"
    by (rule Maclaurin_sin_bound)
  then have "\<bar>sin (1::real) - 101 / 120\<bar> \<le> 1 / 5040"
    by (simp only: s) (simp add: fact_numeral eval_nat_numeral)
  then show "4241 / 5040 \<le> sin (1::real)" "sin (1::real) \<le> 4243 / 5040"
    by argo+
qed

lemma two_decimals_sin_one: "two_decimals (sin 1) = 21 / 25"
proof -
  note b = sin_one_bounds
  have p: "0 < sin (1::real)"
    using b(1) by argo
  then have a: "\<bar>sin (1::real)\<bar> = sin 1" and g: "sgn (sin (1::real)) = 1"
    by simp_all
  have "84 \<le> sin (1::real) * 100 + 1 / 2" and "sin (1::real) * 100 + 1 / 2 < 85"
    using b by argo+
  then have "\<lfloor>sin (1::real) * 100 + 1 / 2\<rfloor> = 84"
    by (simp only: floor_eq_iff) simp
  then have "round (sin (1::real) * 100) = 84"
    by (simp only: round_def)
  then show ?thesis
    by (simp add: two_decimals_def a g)
qed

lemma swept_zero_one: "swept_spec 0 1 = 1"
proof -
  have "2 \<le> pi"
    by (rule pi_ge_two)
  then have "0 \<le> 1 / (2 * pi)" and "1 / (2 * pi) < 1"
    by simp_all
  then have "\<lfloor>1 / (2 * pi)\<rfloor> = 0"
    by (simp only: floor_eq_iff) simp
  then show ?thesis
    by (simp add: swept_spec_def)
qed

lemma chord_area_two_decimals:
  "arc_area_of endpoint_two_decimals 50 50 66 38 0 1 (Str ''chord'') = 1254 / 25"
proof -
  have "\<not> pi < 1"
    using pi_ge_two by argo
  then show ?thesis
    by (simp add: arc_area_of_def swept_zero_one endpoint_two_decimals_def two_decimals_int
        two_decimals_sin_one triangle_spec_def)
qed

lemma chord_area_exact:
  "arc_area_of endpoint_exact 50 50 66 38 0 1 (Str ''chord'') = 627 / 2 * (1 - sin 1)"
proof -
  have "\<not> pi < 1"
    using pi_ge_two by argo
  moreover have "0 \<le> sin (1::real)"
    using sin_one_bounds(1) by argo
  ultimately show ?thesis
    by (simp add: arc_area_of_def swept_zero_one endpoint_exact_def triangle_spec_def
        abs_mult algebra_simps)
qed

lemma chord_round_exact: "round (627 / 2 * (1 - sin (1::real)) * 100 / (100 * 100)) = 0"
proof -
  note b = sin_one_bounds
  have "0 \<le> 627 / 2 * (1 - sin (1::real)) * 100 / (100 * 100) + 1 / 2"
    using b by argo
  moreover have "627 / 2 * (1 - sin (1::real)) * 100 / (100 * 100) + 1 / 2 < 1"
    using b by argo
  ultimately have "\<lfloor>627 / 2 * (1 - sin (1::real)) * 100 / (100 * 100) + 1 / 2\<rfloor> = 0"
    by (simp only: floor_eq_iff) simp
  then show ?thesis
    by (simp only: round_def)
qed

lemma chord_round_two_decimals: "round ((1254 / 25 :: real) * 100 / (100 * 100)) = 1"
proof -
  have "\<lfloor>(1254 / 25 :: real) * 100 / (100 * 100) + 1 / 2\<rfloor> = 1"
    by (simp only: floor_eq_iff) simp
  then show ?thesis
    by (simp only: round_def)
qed

theorem arc_area_exact_projection_differs:
  "getArea ''arc'' chord_args 100 100 = Some 1
   \<and> round (arc_area_of endpoint_exact 50 50 66 38 0 1 (Str ''chord'') * 100 / (100 * 100)) = 0"
proof -
  have "getArea ''arc'' chord_args 100 100 =
      Some (round (arc_area_of endpoint_two_decimals 50 50 66 38 0 1 (Str ''chord'') * 100 /
                     (100 * 100)))"
    unfolding chord_args_def
    using arc_area_general [of 100 100 50 50 66 38 0 1 "Str ''chord''"]
    by simp
  then have "getArea ''arc'' chord_args 100 100 = Some 1"
    by (simp only: chord_area_two_decimals chord_round_two_decimals)
  moreover have "round (arc_area_of endpoint_exact 50 50 66 38 0 1 (Str ''chord'') * 100 /
      (100 * 100)) = 0"
    by (simp only: chord_area_exact chord_round_exact)
  ultimately show ?thesis
    by (intro conjI)
qed

end
